theory Spec2Isabelle
  imports Complex_Main
begin

section \<open>JavaScript values\<close>

text \<open>
  The request body of the HTTP server is parsed JSON, and the code inspects it with
  dynamic tests (\<^verbatim>\<open>Array.isArray\<close>, \<^verbatim>\<open>typeof\<close>, \<^verbatim>\<open>===\<close>, \<^verbatim>\<open>??\<close>).
  Values that the code tests this way are modelled by \<open>jsval\<close>. A string is a list of
  code units; an object is the list of its own properties.
\<close>

text \<open>
  A number is a double: a finite value, which is a rational, one of the two infinities
  (JSON text such as \<^verbatim>\<open>1e400\<close> parses to one), or NaN.
\<close>

datatype number = Fin rat | Infinity | NegInfinity | NaN

datatype jsval =
    JUndefined
  | JNull
  | JBool bool
  | JNumber number
  | JStr string
  | JArr "jsval list"
  | JObj "(string \<times> jsval) list"

abbreviation JNum :: "rat \<Rightarrow> jsval" where
  "JNum r \<equiv> JNumber (Fin r)"

fun isArray :: "jsval \<Rightarrow> bool" where
  "isArray (JArr xs) = True"
| "isArray v = False"

fun isNumber :: "jsval \<Rightarrow> bool" where
  \<comment> \<open>\<^verbatim>\<open>typeof v === 'number'\<close>\<close>
  "isNumber (JNumber n) = True"
| "isNumber v = False"

fun isFinite :: "jsval \<Rightarrow> bool" where
  \<comment> \<open>\<^verbatim>\<open>Number.isFinite(v)\<close>\<close>
  "isFinite (JNumber (Fin r)) = True"
| "isFinite v = False"

text \<open>\<^verbatim>\<open>x ?? y\<close>: the right operand only when the left one is null or undefined.\<close>

fun nullish :: "jsval \<Rightarrow> bool" where
  "nullish JUndefined = True"
| "nullish JNull = True"
| "nullish v = False"

definition coalesce :: "jsval \<Rightarrow> jsval \<Rightarrow> jsval" where
  "coalesce x y = (if nullish x then y else x)"



subsection \<open>Decimal rendering of a natural number\<close>

definition digit :: "nat \<Rightarrow> char" where
  "digit n = ''0123456789'' ! (n mod 10)"

function show_nat :: "nat \<Rightarrow> string" where
  "show_nat n = (if n < 10 then [digit n] else show_nat (n div 10) @ [digit n])"
  by pat_completeness auto
termination
  by (relation "measure (\<lambda>n. n)") auto

declare show_nat.simps [simp del]

subsection \<open>Property access\<close>

text \<open>
  \<^verbatim>\<open>v?.[k]\<close>: undefined on null and undefined; an own property of an object; an
  element or the length of an array; a code unit or the length of a string. Of the
  inherited properties one is an array: \<^verbatim>\<open>__proto__\<close> of an array is
  \<^verbatim>\<open>Array.prototype\<close>, an empty array for \<^verbatim>\<open>Array.isArray\<close>, for its length and for
  a spread. The others are functions and prototype objects that are no arrays, strings,
  numbers or booleans; the callers here test for nothing else, and they read as undefined.
\<close>

definition index_of_key :: "nat \<Rightarrow> string \<Rightarrow> nat option" where
  "index_of_key n k = List.find (\<lambda>i. show_nat i = k) [0..<n]"

fun get :: "jsval \<Rightarrow> string \<Rightarrow> jsval" where
  "get (JObj kvs) k = (case map_of kvs k of Some v \<Rightarrow> v | None \<Rightarrow> JUndefined)"
| "get (JArr xs) k =
     (case index_of_key (length xs) k of
        Some i \<Rightarrow> xs ! i
      | None \<Rightarrow> if k = ''length'' then JNum (of_nat (length xs))
                else if k = ''__proto__'' then JArr [] else JUndefined)"
| "get (JStr s) k =
     (case index_of_key (length s) k of
        Some i \<Rightarrow> JStr [s ! i]
      | None \<Rightarrow> if k = ''length'' then JNum (of_nat (length s)) else JUndefined)"
| "get v k = JUndefined"

section \<open>History Resolver\<close>

text \<open>
  \<^verbatim>\<open>pickHist(providerKey)\<close> of the \<^verbatim>\<open>/api/ask\<close> handler. It closes over the body fields
  \<^verbatim>\<open>histories\<close>, \<^verbatim>\<open>history\<close> and \<^verbatim>\<open>modelId\<close>, which are parameters here.
\<close>

definition elems :: "jsval \<Rightarrow> jsval list" where
  "elems v = (case v of JArr xs \<Rightarrow> xs | _ \<Rightarrow> [])"

definition combined :: "jsval \<Rightarrow> jsval list" where
  "combined histories =
     concat (map (\<lambda>k. if isArray (get histories k) then elems (get histories k) else [])
                 [''model1'', ''model2'', ''model3''])"

definition hasModelHist :: "jsval \<Rightarrow> jsval \<Rightarrow> bool" where
  \<comment> \<open>\<^verbatim>\<open>typeof modelId === 'string' && Array.isArray(histories?.[modelId])\<close>\<close>
  "hasModelHist histories modelId =
     (case modelId of JStr m \<Rightarrow> isArray (get histories m) | _ \<Rightarrow> False)"

definition pickHist :: "jsval \<Rightarrow> jsval \<Rightarrow> jsval \<Rightarrow> string \<Rightarrow> jsval" where
  "pickHist histories history modelId providerKey =
     (if isArray (get histories providerKey) then get histories providerKey
      else if hasModelHist histories modelId
        then (case modelId of JStr m \<Rightarrow> get histories m | _ \<Rightarrow> JUndefined)
      else if isArray (get histories ''model1'') \<or> isArray (get histories ''model2'')
              \<or> isArray (get histories ''model3'')
        then JArr (combined histories)
      else coalesce history (JArr []))"

section \<open>Provider adapters\<close>

subsection \<open>Strings\<close>

fun join :: "string \<Rightarrow> string list \<Rightarrow> string" where
  "join sep [] = []"
| "join sep [x] = x"
| "join sep (x # y # ys) = x @ sep @ join sep (y # ys)"

fun starts_with :: "string \<Rightarrow> string \<Rightarrow> bool" where
  "starts_with [] s = True"
| "starts_with (p # ps) [] = False"
| "starts_with (p # ps) (c # cs) = (p = c \<and> starts_with ps cs)"

fun contains :: "string \<Rightarrow> string \<Rightarrow> bool" where
  "contains pat [] = starts_with pat []"
| "contains pat (c # cs) = (starts_with pat (c # cs) \<or> contains pat cs)"

definition lower_char :: "char \<Rightarrow> char" where
  "lower_char c =
     (case map_of (zip ''ABCDEFGHIJKLMNOPQRSTUVWXYZ'' ''abcdefghijklmnopqrstuvwxyz'') c of
        Some l \<Rightarrow> l
      | None \<Rightarrow> c)"

text \<open>
  The three regular expressions of the code are literal patterns, two of them with the
  flag \<^verbatim>\<open>i\<close>: a search for the pattern anywhere in the string, letters compared
  without case.
\<close>

definition usesResponsesApi :: "string \<Rightarrow> bool" where
  \<comment> \<open>\<^verbatim>\<open>/deep-research/i.test(model || '')\<close>\<close>
  "usesResponsesApi model = contains ''deep-research'' (map lower_char model)"

definition isGpt5 :: "string \<Rightarrow> bool" where
  \<comment> \<open>\<^verbatim>\<open>/gpt-5/i.test(model) || /-2025-/.test(model)\<close>\<close>
  "isGpt5 model = (contains ''gpt-5'' (map lower_char model) \<or> contains ''-2025-'' model)"

subsection \<open>Requests\<close>

text \<open>
  The object every adapter destructures. \<open>system\<close> is an optional text; the sampling
  parameters and the history are tested dynamically by the adapters and stay \<open>jsval\<close>.
\<close>

record ask_args =
  prompt :: string
  system :: "string option"
  model :: string
  temperature :: jsval
  maxTokens :: jsval
  maxCompletionTokens :: jsval
  history :: jsval
  useModelConfig :: bool

text \<open>The object \<^verbatim>\<open>loadModelSpecificConfig(model)\<close> returns; it is read from files.\<close>

record model_config =
  cfg_system :: "string option"
  cfg_temperature :: jsval
  cfg_maxTokens :: jsval

datatype error = Error (message: string)

definition configured :: "string option \<Rightarrow> bool" where
  \<comment> \<open>an optional text that is set and not empty: what \<^verbatim>\<open>if (x)\<close> and \<^verbatim>\<open>x || y\<close> test\<close>
  "configured key = (case key of Some k \<Rightarrow> k \<noteq> [] | None \<Rightarrow> False)"

definition withModelConfig :: "model_config \<Rightarrow> ask_args \<Rightarrow> ask_args" where
  "withModelConfig modelConfig a =
     (if useModelConfig a then
        a\<lparr> system := (if configured (system a) then system a else cfg_system modelConfig),
           temperature := (if temperature a \<noteq> JUndefined then temperature a
                           else cfg_temperature modelConfig),
           maxTokens := (if maxTokens a \<noteq> JUndefined then maxTokens a
                         else cfg_maxTokens modelConfig),
           maxCompletionTokens := (if maxCompletionTokens a \<noteq> JUndefined
                                   then maxCompletionTokens a
                                   else cfg_maxTokens modelConfig) \<rparr>
      else a)"

subsection \<open>Transcript to messages\<close>

definition turn_content :: "jsval \<Rightarrow> string" where
  \<comment> \<open>\<^verbatim>\<open>typeof m?.content === 'string' ? m.content : ''\<close>\<close>
  "turn_content m = (case get m ''content'' of JStr c \<Rightarrow> c | _ \<Rightarrow> [])"

definition openai_role :: "jsval \<Rightarrow> string" where
  "openai_role m =
     (if get m ''role'' = JStr ''assistant'' then ''assistant''
      else if get m ''role'' = JStr ''system'' then ''system'' else ''user'')"

definition research_role :: "jsval \<Rightarrow> string" where
  "research_role m =
     (if get m ''role'' = JStr ''assistant'' then ''Assistant''
      else if get m ''role'' = JStr ''system'' then ''System'' else ''User'')"

definition claude_role :: "jsval \<Rightarrow> string" where
  "claude_role m = (if get m ''role'' = JStr ''assistant'' then ''assistant'' else ''user'')"

definition gemini_role :: "jsval \<Rightarrow> string" where
  "gemini_role m = (if get m ''role'' = JStr ''assistant'' then ''model'' else ''user'')"

definition chat_message :: "string \<Rightarrow> string \<Rightarrow> jsval" where
  "chat_message role content = JObj [(''role'', JStr role), (''content'', JStr content)]"

definition gemini_content :: "string \<Rightarrow> string \<Rightarrow> jsval" where
  "gemini_content role text =
     JObj [(''role'', JStr role), (''parts'', JArr [JObj [(''text'', JStr text)]])]"

text \<open>
  The loop over the history, shared by the adapters: nothing when the history is not an
  array; a turn is pushed only when its content is a non-empty string.
\<close>

definition history_turns :: "jsval \<Rightarrow> jsval list" where
  "history_turns h = (if isArray h then filter (\<lambda>m. turn_content m \<noteq> []) (elems h) else [])"

definition openai_messages :: "ask_args \<Rightarrow> jsval list" where
  "openai_messages a =
     (if configured (system a) then [chat_message ''system'' (the (system a))] else [])
     @ map (\<lambda>m. chat_message (openai_role m) (turn_content m)) (history_turns (history a))
     @ [chat_message ''user'' (prompt a)]"

definition claude_messages :: "ask_args \<Rightarrow> jsval list" where
  "claude_messages a =
     map (\<lambda>m. chat_message (claude_role m) (turn_content m)) (history_turns (history a))
     @ [chat_message ''user'' (prompt a)]"

definition gemini_contents :: "ask_args \<Rightarrow> jsval list" where
  "gemini_contents a =
     map (\<lambda>m. gemini_content (gemini_role m) (turn_content m)) (history_turns (history a))
     @ [gemini_content ''user'' (prompt a)]"

subsection \<open>The chat-completion-style adapter\<close>

definition DEEP_RESEARCH_PLANNER_INSTRUCTIONS :: string where
  "DEEP_RESEARCH_PLANNER_INSTRUCTIONS = concat [
     ''\<newline>'',
     ''You will be given a research task by a user. Your job is to produce a set of\<newline>'',
     ''instructions for a researcher that will complete the task. Do NOT complete the\<newline>'',
     ''task yourself, just provide instructions on how to complete it.\<newline>'',
     ''\<newline>'',
     ''GUIDELINES:\<newline>'',
     ''1. **Maximize Specificity and Detail**\<newline>'',
     ''- Include all known user preferences and explicitly list key attributes or\<newline>'',
     ''  dimensions to consider.\<newline>'',
     ''- It is of utmost importance that all details from the user are included in\<newline>'',
     ''  the instructions.\<newline>'',
     ''\<newline>'',
     ''2. **Fill in Unstated But Necessary Dimensions as Open-Ended**\<newline>'',
     ''- If certain attributes are essential for a meaningful output but the user\<newline>'',
     ''  has not provided them, explicitly state that they are open-ended or default\<newline>'',
     ''  to no specific constraint.\<newline>'',
     ''\<newline>'',
     ''3. **Avoid Unwarranted Assumptions**\<newline>'',
     ''- If the user has not provided a particular detail, do not invent one.\<newline>'',
     ''- Instead, state the lack of specification and guide the researcher to treat\<newline>'',
     ''  it as flexible or accept all possible options.\<newline>'',
     ''\<newline>'',
     ''4. **Use the First Person**\<newline>'',
     ''- Phrase the request from the perspective of the user.\<newline>'',
     ''\<newline>'',
     ''5. **Tables**\<newline>'',
     ''- If you determine that including a table will help illustrate, organize, or\<newline>'',
     ''  enhance the information in the research output, you must explicitly request\<newline>'',
     ''  that the researcher provide them (examples: product comparison, project\<newline>'',
     ''  tracking, budget planning, competitor analysis).\<newline>'',
     ''\<newline>'',
     ''6. **Headers and Formatting**\<newline>'',
     ''- Include the expected output format in the prompt.\<newline>'',
     ''- If the user is asking for content that would be best returned in a\<newline>'',
     ''  structured format (e.g. a report, plan, etc.), ask the researcher to format\<newline>'',
     ''  as a report with the appropriate headers and formatting that ensures clarity\<newline>'',
     ''  and structure.\<newline>'',
     ''\<newline>'',
     ''7. **Language**\<newline>'',
     ''- If the user input is in a language other than English, tell the researcher\<newline>'',
     ''  to respond in this language, unless the user query explicitly asks for the\<newline>'',
     ''  response in a different language.\<newline>'',
     ''\<newline>'',
     ''8. **Sources**\<newline>'',
     ''- If specific sources should be prioritized, specify them in the prompt.\<newline>'',
     ''- For product and travel research, prefer linking directly to official or\<newline>'',
     ''  primary websites.\<newline>'',
     ''- For academic or scientific queries, prefer linking directly to the original\<newline>'',
     ''  paper or journal publication.\<newline>'',
     ''- If the query is in a specific language, prioritize sources published in that\<newline>'',
     ''  language.'']"

datatype openai_call = ResponsesCreate jsval | ChatCompletionsCreate jsval

fun payload_of :: "openai_call \<Rightarrow> jsval" where
  "payload_of (ResponsesCreate p) = p"
| "payload_of (ChatCompletionsCreate p) = p"

definition research_parts :: "ask_args \<Rightarrow> string list" where
  "research_parts a =
     [''System: '' @ DEEP_RESEARCH_PLANNER_INSTRUCTIONS]
     @ (if configured (system a) then [''System: '' @ the (system a)] else [])
     @ map (\<lambda>m. research_role m @ '': '' @ turn_content m) (history_turns (history a))
     @ [''User: '' @ prompt a]"

definition research_tools :: jsval where
  "research_tools =
     JArr [JObj [(''type'', JStr ''web_search_preview'')],
           JObj [(''type'', JStr ''code_interpreter''),
                 (''container'', JObj [(''type'', JStr ''auto'')])]]"

definition research_payload :: "ask_args \<Rightarrow> jsval" where
  "research_payload a =
     JObj [(''model'', JStr (model a)),
           (''input'', JStr (join ''\<newline>\<newline>'' (research_parts a))),
           (''tools'', research_tools)]"

definition sampling_fields :: "bool \<Rightarrow> jsval \<Rightarrow> jsval \<Rightarrow> jsval \<Rightarrow> (string \<times> jsval) list" where
  \<comment> \<open>the switch on \<^verbatim>\<open>isGpt5\<close>, the same in \<^verbatim>\<open>askOpenAI\<close> and in \<^verbatim>\<open>/api/stream\<close>\<close>
  "sampling_fields gpt5 temp maxT maxCT =
     (if \<not> gpt5 \<and> isNumber temp then [(''temperature'', temp)] else [])
     @ (if gpt5
        then (if isNumber (coalesce maxCT maxT)
              then [(''max_completion_tokens'', coalesce maxCT maxT)] else [])
        else (if isNumber (coalesce maxT maxCT)
              then [(''max_tokens'', coalesce maxT maxCT)] else []))"

definition chat_payload :: "ask_args \<Rightarrow> jsval" where
  "chat_payload a =
     JObj ([(''model'', JStr (model a)), (''messages'', JArr (openai_messages a))]
           @ sampling_fields (isGpt5 (model a)) (temperature a) (maxTokens a)
               (maxCompletionTokens a))"

definition askOpenAI_request :: "string option \<Rightarrow> model_config \<Rightarrow> ask_args \<Rightarrow> error + openai_call" where
  "askOpenAI_request apiKey modelConfig args =
     (if \<not> configured apiKey then Inl (Error ''Missing OPENAI_API_KEY'')
      else let a = withModelConfig modelConfig args in
        if usesResponsesApi (model a) then Inr (ResponsesCreate (research_payload a))
        else Inr (ChatCompletionsCreate (chat_payload a)))"

text \<open>
  The result of \<^verbatim>\<open>client.responses.create\<close>, with the fields the adapter reads: the
  convenience field \<^verbatim>\<open>output_text\<close> and the list \<^verbatim>\<open>output\<close> (here \<open>output_list\<close>), whose items carry
  either a \<^verbatim>\<open>text\<close> or a list \<^verbatim>\<open>content\<close> of parts with a \<^verbatim>\<open>text\<close>.
\<close>

datatype output_item = OutputItem (item_text: "string option") (item_content: "string option list option")

datatype responses_result = ResponsesResult (output_text: "string option") (output_list: "output_item list option")

definition item_fragment :: "output_item \<Rightarrow> string" where
  "item_fragment item =
     (case item_text item of
        Some t \<Rightarrow> t
      | None \<Rightarrow> (case item_content item of
                   Some cs \<Rightarrow> concat (map (\<lambda>c. case c of Some t \<Rightarrow> t | None \<Rightarrow> []) cs)
                 | None \<Rightarrow> []))"

definition research_text :: "responses_result \<Rightarrow> string" where
  "research_text response =
     (case output_text response of
        Some t \<Rightarrow> if t \<noteq> [] then t
                  else (case output_list response of Some out \<Rightarrow> concat (map item_fragment out) | None \<Rightarrow> [])
      | None \<Rightarrow> (case output_list response of Some out \<Rightarrow> concat (map item_fragment out) | None \<Rightarrow> []))"

text \<open>The payload of the \<^verbatim>\<open>/api/stream\<close> handler: the model is an optional body field.\<close>

definition openaiModel :: string where
  "openaiModel = ''gpt-5-mini-2025-08-07''"

definition stream_payload :: "string option \<Rightarrow> jsval \<Rightarrow> jsval \<Rightarrow> jsval \<Rightarrow> jsval list \<Rightarrow> jsval" where
  "stream_payload model_opt temp maxT maxCT messages =
     JObj ([(''model'', JStr (if configured model_opt then the model_opt else openaiModel)),
            (''messages'', JArr messages)]
           @ sampling_fields (isGpt5 (if configured model_opt then the model_opt else []))
               temp maxT maxCT)"

subsection \<open>The message-style adapter\<close>

definition claude_payload :: "ask_args \<Rightarrow> jsval" where
  "claude_payload a =
     JObj [(''model'', JStr (model a)),
           (''system'', if configured (system a) then JStr (the (system a)) else JUndefined),
           (''max_tokens'', maxTokens a),
           (''temperature'', temperature a),
           (''messages'', JArr (claude_messages a))]"

definition askClaude_request :: "string option \<Rightarrow> ask_args \<Rightarrow> error + jsval" where
  "askClaude_request apiKey a =
     (if \<not> configured apiKey then Inl (Error ''Missing ANTHROPIC_API_KEY'')
      else Inr (claude_payload a))"

subsection \<open>The generative-content-style adapter\<close>

text \<open>
  The key is \<^verbatim>\<open>GEMINI_API_KEY || GOOGLE_API_KEY\<close>. The adapter makes two objects: the
  argument of \<^verbatim>\<open>getGenerativeModel\<close> and the argument of \<^verbatim>\<open>generateContent\<close>.
\<close>

definition gemini_model_params :: "ask_args \<Rightarrow> jsval" where
  "gemini_model_params a =
     JObj ([(''model'', JStr (model a))]
           @ (if configured (system a) then [(''systemInstruction'', JStr (the (system a)))] else []))"

definition gemini_request :: "ask_args \<Rightarrow> jsval" where
  "gemini_request a =
     JObj [(''contents'', JArr (gemini_contents a)),
           (''generationConfig'',
            JObj [(''temperature'', temperature a), (''maxOutputTokens'', maxTokens a)])]"

definition askGemini_request :: "string option \<Rightarrow> string option \<Rightarrow> ask_args \<Rightarrow> error + jsval \<times> jsval" where
  "askGemini_request geminiKey googleKey a =
     (if \<not> (configured geminiKey \<or> configured googleKey)
      then Inl (Error ''Missing GEMINI_API_KEY or GOOGLE_API_KEY'')
      else Inr (gemini_model_params a, gemini_request a))"

subsection \<open>Reading a payload\<close>


definition nonempty_text :: "jsval \<Rightarrow> bool" where
  "nonempty_text v = (case v of JStr c \<Rightarrow> c \<noteq> [] | _ \<Rightarrow> False)"

definition kept_contents :: "jsval \<Rightarrow> jsval list" where
  \<comment> \<open>the contents of the turns whose content is a non-empty string, in order\<close>
  "kept_contents h =
     map (\<lambda>m. get m ''content'') (filter (\<lambda>m. nonempty_text (get m ''content'')) (elems h))"

definition gemini_text :: "jsval \<Rightarrow> jsval" where
  \<comment> \<open>the text of the first part of a content\<close>
  "gemini_text x = (case get x ''parts'' of JArr (p # ps) \<Rightarrow> get p ''text'' | _ \<Rightarrow> JUndefined)"


text \<open>
  The input of the long-running mode in the words of the specification: the planner
  block, the optional system instruction, each kept turn as \<open>Role: content\<close> and the
  final prompt, each part but the last followed by a blank line.
\<close>

definition flattened_input :: "ask_args \<Rightarrow> string" where
  "flattened_input a =
     ''System: '' @ DEEP_RESEARCH_PLANNER_INSTRUCTIONS @ ''\<newline>\<newline>''
     @ (if configured (system a) then ''System: '' @ the (system a) @ ''\<newline>\<newline>'' else [])
     @ concat (map (\<lambda>m. research_role m @ '': '' @ turn_content m @ ''\<newline>\<newline>'')
                   (history_turns (history a)))
     @ ''User: '' @ prompt a"

section \<open>Timeout Wrapper\<close>

text \<open>
  \<^verbatim>\<open>withTimeout(promise, timeoutMs, label)\<close> builds a promise whose executor arms a timer
  and attaches two callbacks to the operation. Each callback is an event; the wrapper is
  the state these callbacks share: the state of the returned promise, the timer, and the
  number of calls of \<^verbatim>\<open>resolve\<close> that settled the promise. The executor receives
  \<^verbatim>\<open>resolve\<close> only, so the returned promise has no rejected state.
\<close>

datatype 'v outcome = Ok 'v | Fail error

fun ok :: "'v outcome \<Rightarrow> bool" where
  "ok (Ok v) = True"
| "ok (Fail e) = False"

datatype 'v promise_state = Pending | Resolved "'v outcome"

record 'v wrapper =
  settled :: "'v promise_state"
  timer :: bool
  settlements :: nat

datatype 'v event = TimerFires | OperationFulfils 'v | OperationRejects error

definition resolve :: "'v outcome \<Rightarrow> 'v wrapper \<Rightarrow> 'v wrapper" where
  \<comment> \<open>a promise settles once: \<^verbatim>\<open>resolve\<close> on a settled promise does nothing\<close>
  "resolve r w =
     (case settled w of
        Pending \<Rightarrow> w\<lparr>settled := Resolved r, settlements := settlements w + 1\<rparr>
      | Resolved r' \<Rightarrow> w)"

definition clearTimeout :: "'v wrapper \<Rightarrow> 'v wrapper" where
  "clearTimeout w = w\<lparr>timer := False\<rparr>"

text \<open>
  The message of the timeout failure interpolates the timeout, a number, into a template
  literal. The rendering of a number as a string is the runtime's; it is the parameter
  \<open>numberToString\<close> of everything that prints a number.
\<close>

definition timeout_error :: "(number \<Rightarrow> string) \<Rightarrow> string \<Rightarrow> number \<Rightarrow> error" where
  "timeout_error numberToString label timeoutMs =
     Error (label @ '' timed out after '' @ numberToString timeoutMs @ ''ms'')"

fun on_event :: "(number \<Rightarrow> string) \<Rightarrow> number \<Rightarrow> string \<Rightarrow> 'v wrapper \<Rightarrow> 'v event \<Rightarrow> 'v wrapper" where
  "on_event numberToString timeoutMs label w TimerFires =
     (if timer w
      then resolve (Fail (timeout_error numberToString label timeoutMs)) (w\<lparr>timer := False\<rparr>)
      else w)"
| "on_event numberToString timeoutMs label w (OperationFulfils v) = resolve (Ok v) (clearTimeout w)"
| "on_event numberToString timeoutMs label w (OperationRejects e) = resolve (Fail e) (clearTimeout w)"

definition armed :: "'v wrapper" where
  "armed = \<lparr>settled = Pending, timer = True, settlements = 0\<rparr>"

text \<open>
  An operation in flight, described by how it settles relative to the timer: it settles
  before the timer fires, or the timer fires first and the operation settles later or
  never. A timer that was not cleared fires; an operation settles at most once.
\<close>

datatype 'v settlement = Fulfils 'v | Rejects error

datatype 'v operation = SettlesFirst "'v settlement" | TimerFirst "'v settlement option"

fun settle_event :: "'v settlement \<Rightarrow> 'v event" where
  "settle_event (Fulfils v) = OperationFulfils v"
| "settle_event (Rejects e) = OperationRejects e"

fun events :: "'v operation \<Rightarrow> 'v event list" where
  "events (SettlesFirst s) = [settle_event s]"
| "events (TimerFirst None) = [TimerFires]"
| "events (TimerFirst (Some s)) = [TimerFires, settle_event s]"

definition run_wrapper :: "(number \<Rightarrow> string) \<Rightarrow> number \<Rightarrow> string \<Rightarrow> 'v wrapper \<Rightarrow> 'v event list
    \<Rightarrow> 'v wrapper" where
  "run_wrapper numberToString timeoutMs label w es =
     foldl (on_event numberToString timeoutMs label) w es"

definition withTimeout :: "(number \<Rightarrow> string) \<Rightarrow> 'v operation \<Rightarrow> number \<Rightarrow> string
    \<Rightarrow> 'v promise_state" where
  "withTimeout numberToString promise timeoutMs label =
     settled (run_wrapper numberToString timeoutMs label armed (events promise))"

text \<open>The outcome the specification gives, in its words: the operation's own outcome when
  it settles first, the timeout failure when the timer fires first.\<close>

fun mirror :: "'v settlement \<Rightarrow> 'v outcome" where
  "mirror (Fulfils v) = Ok v"
| "mirror (Rejects e) = Fail e"

fun deadline_outcome :: "(number \<Rightarrow> string) \<Rightarrow> 'v operation \<Rightarrow> number \<Rightarrow> string \<Rightarrow> 'v outcome" where
  "deadline_outcome numberToString (SettlesFirst s) timeoutMs label = mirror s"
| "deadline_outcome numberToString (TimerFirst late) timeoutMs label =
     Fail (timeout_error numberToString label timeoutMs)"

section \<open>Retry Supervisor\<close>

text \<open>
  \<^verbatim>\<open>taskFactory\<close> is called once per attempt; the operation its \<open>i\<close>-th call starts is
  \<open>taskFactory i\<close>. \<open>calls\<close> counts the calls made. An \<^verbatim>\<open>await\<close> on a promise that
  stays pending never returns: the result is \<open>None\<close>.
\<close>

function attempt :: "(number \<Rightarrow> string) \<Rightarrow> string \<Rightarrow> (nat \<Rightarrow> 'v operation) \<Rightarrow> int \<Rightarrow> number
    \<Rightarrow> nat \<Rightarrow> nat \<Rightarrow> ('v outcome \<times> nat) option" where
  "attempt numberToString label taskFactory attempts perAttemptTimeoutMs n calls =
     (case withTimeout numberToString (taskFactory calls) perAttemptTimeoutMs label of
        Pending \<Rightarrow> None
      | Resolved result \<Rightarrow>
          if ok result then Some (result, calls + 1)
          else if attempts \<le> int n + 1 then Some (result, calls + 1)
          else attempt numberToString label taskFactory attempts perAttemptTimeoutMs (n + 1)
                 (calls + 1))"
  by pat_completeness auto
termination
  by (relation "measure (\<lambda>(ts, label, taskFactory, attempts, t, n, calls). nat (attempts - int n))")
    auto

declare attempt.simps [simp del]

definition runWithRetries :: "(number \<Rightarrow> string) \<Rightarrow> string \<Rightarrow> (nat \<Rightarrow> 'v operation) \<Rightarrow> int
    \<Rightarrow> number \<Rightarrow> ('v outcome \<times> nat) option" where
  "runWithRetries numberToString label taskFactory attempts perAttemptTimeoutMs =
     attempt numberToString label taskFactory attempts perAttemptTimeoutMs 0 0"

section \<open>Orchestrator: the handler of /api/ask\<close>

subsection \<open>Attachments\<close>

text \<open>
  An element of \<^verbatim>\<open>attachments\<close> with the fields the code reads. A field is \<open>None\<close>
  when it is absent; \<open>att_content\<close> is \<open>None\<close> when the content is not a string. The
  size is a number, printed as the runtime prints it, as is the position in the list.
\<close>

record attachment =
  att_name :: "string option"
  att_type :: "string option"
  att_size :: "number option"
  att_content :: "string option"

definition MAX_PER :: nat where
  "MAX_PER = 100000"

definition or_default :: "string option \<Rightarrow> string \<Rightarrow> string" where
  \<comment> \<open>\<^verbatim>\<open>x || d\<close> on an optional text\<close>
  "or_default x d = (case x of Some v \<Rightarrow> if v \<noteq> [] then v else d | None \<Rightarrow> d)"

definition size_or_zero :: "number option \<Rightarrow> number" where
  \<comment> \<open>\<^verbatim>\<open>Number(a?.size || 0)\<close>: zero and NaN are falsy\<close>
  "size_or_zero x = (case x of Some n \<Rightarrow> if n = Fin 0 \<or> n = NaN then Fin 0 else n | None \<Rightarrow> Fin 0)"

definition attachment_line :: "(number \<Rightarrow> string) \<Rightarrow> nat \<Rightarrow> attachment \<Rightarrow> string" where
  "attachment_line numberToString i a =
     (let name = or_default (att_name a) (''file_'' @ numberToString (Fin (of_nat (i + 1))));
          type = or_default (att_type a) ''text/plain'';
          size = size_or_zero (att_size a);
          content = (case att_content a of Some c \<Rightarrow> c | None \<Rightarrow> []);
          note = (if length content > MAX_PER then '' [truncated]'' else []);
          content = (if length content > MAX_PER then take MAX_PER content else content)
      in ''\<newline>['' @ numberToString (Fin (of_nat (i + 1))) @ ''] '' @ name @ '' ('' @ type @ '', ''
           @ numberToString size @ '' bytes)'' @ note @ '':\<newline>'' @ content)"

definition buildPromptWithAttachments :: "(number \<Rightarrow> string) \<Rightarrow> string \<Rightarrow> attachment list option
    \<Rightarrow> string" where
  "buildPromptWithAttachments numberToString p atts =
     (case atts of
        None \<Rightarrow> p
      | Some as \<Rightarrow>
          if as = [] then p
          else join ''\<newline>''
                 ([''Attachments:'']
                  @ map (\<lambda>(i, a). attachment_line numberToString i a) (zip [0..<length as] as)
                  @ [''\<newline>---\<newline>'', p]))"

subsection \<open>Request, environment, result\<close>

definition is_space :: "char \<Rightarrow> bool" where
  "is_space c = (c \<in> set [CHR 0x09, CHR 0x0A, CHR 0x0B, CHR 0x0C, CHR 0x0D, CHR 0x20, CHR 0xA0])"

definition blank :: "string \<Rightarrow> bool" where
  \<comment> \<open>\<^verbatim>\<open>s.trim()\<close> is empty\<close>
  "blank s = list_all is_space s"

text \<open>
  The fields of the request body. \<open>body_models\<close> maps a provider to a model name,
  \<open>body_attachments\<close> is \<open>None\<close> when the field is not an array.
\<close>

record ask_body =
  body_prompt :: jsval
  body_system :: jsval
  body_providers :: jsval
  body_models :: "string \<rightharpoonup> string"
  body_temperature :: jsval
  body_maxTokens :: jsval
  body_timeoutMs :: jsval
  body_history :: jsval
  body_histories :: jsval
  body_useModelConfig :: jsval
  body_modelId :: jsval
  body_attachments :: "attachment list option"

text \<open>One provider's entry of the object \<^verbatim>\<open>loadProviderConfig()\<close> returns.\<close>

record provider_config =
  pc_system :: "string option"
  pc_temperature :: jsval
  pc_maxTokens :: jsval
  pc_timeoutMs :: number

text \<open>
  What the handler takes from outside: the runtime's rendering of numbers, the
  environment variables, the configuration files, the readings of the clock when a job
  is submitted and when it settles, and for each provider how the operation started by
  the \<open>i\<close>-th call of its adapter, on the request given, races its timer.
\<close>

record ask_env =
  env_numberToString :: "number \<Rightarrow> string"
  OPENAI_API_KEY :: "string option"
  ANTHROPIC_API_KEY :: "string option"
  GEMINI_API_KEY :: "string option"
  GOOGLE_API_KEY :: "string option"
  CFG :: "string \<Rightarrow> provider_config"
  startedAt :: "string \<Rightarrow> int"
  settledAt :: "string \<Rightarrow> int"
  adapter :: "string \<Rightarrow> ask_args \<Rightarrow> nat \<Rightarrow> string operation"

record provider_outcome =
  out_provider :: string
  out_model :: string
  out_ok :: bool
  out_text :: "string option"
  out_error :: "string option"
  latencyMs :: int

record aggregate =
  results :: "(string \<times> provider_outcome) list"
  invocations :: "(string \<times> ask_args) list"

text \<open>
  The handler answers with status 400, or with the aggregate, or it throws before it
  answers: it is an asynchronous function that nothing catches, so nothing is sent.
\<close>

datatype response = BadRequest | Answered aggregate | Throws

definition claudeModel :: string where
  "claudeModel = ''claude-3-5-sonnet-latest''"

definition geminiModel :: string where
  "geminiModel = ''gemini-1.5-flash''"

definition default_temperature :: jsval where
  "default_temperature = JNum (2 / 10)"

definition default_maxTokens :: jsval where
  "default_maxTokens = JNum 1024"






definition config_system :: "ask_body \<Rightarrow> string option" where
  "config_system b = (case body_system b of JStr s \<Rightarrow> if \<not> blank s then Some s else None | _ \<Rightarrow> None)"

definition config_temperature :: "ask_body \<Rightarrow> jsval" where
  "config_temperature b = (if isNumber (body_temperature b) then body_temperature b else default_temperature)"

definition config_maxTokens :: "ask_body \<Rightarrow> jsval" where
  "config_maxTokens b = (if isNumber (body_maxTokens b) then body_maxTokens b else default_maxTokens)"


definition config_model :: "ask_body \<Rightarrow> string \<Rightarrow> string" where
  "config_model b key =
     or_default (body_models b key)
       (if key = ''openai'' then openaiModel else if key = ''claude'' then claudeModel else geminiModel)"

text \<open>
  The effective values \<^verbatim>\<open>eff\<close>, after the optional merge of the provider's file. The
  merge keeps the value of the request when \<^verbatim>\<open>Number.isFinite\<close> holds of the body field,
  a stricter test than the \<^verbatim>\<open>typeof\<close> test of \<^verbatim>\<open>config\<close>.
\<close>

definition eff_sys :: "ask_env \<Rightarrow> ask_body \<Rightarrow> string \<Rightarrow> string option" where
  "eff_sys env b key =
     (if body_useModelConfig b = JBool True
      then (if config_system b \<noteq> None then config_system b else pc_system (CFG env key))
      else config_system b)"

definition eff_temp :: "ask_env \<Rightarrow> ask_body \<Rightarrow> string \<Rightarrow> jsval" where
  "eff_temp env b key =
     (if body_useModelConfig b = JBool True
      then (if isFinite (body_temperature b) then config_temperature b else pc_temperature (CFG env key))
      else config_temperature b)"

definition eff_maxT :: "ask_env \<Rightarrow> ask_body \<Rightarrow> string \<Rightarrow> jsval" where
  "eff_maxT env b key =
     (if body_useModelConfig b = JBool True
      then (if isFinite (body_maxTokens b) then config_maxTokens b else pc_maxTokens (CFG env key))
      else config_maxTokens b)"


definition effectivePrompt :: "ask_env \<Rightarrow> ask_body \<Rightarrow> string" where
  "effectivePrompt env b =
     buildPromptWithAttachments (env_numberToString env)
       (case body_prompt b of JStr s \<Rightarrow> s | _ \<Rightarrow> []) (body_attachments b)"

definition provider_args :: "ask_env \<Rightarrow> ask_body \<Rightarrow> string \<Rightarrow> ask_args" where
  \<comment> \<open>the object literal passed to the adapter; only the OpenAI one sets \<^verbatim>\<open>useModelConfig\<close>\<close>
  "provider_args env b key =
     \<lparr> prompt = effectivePrompt env b,
       system = eff_sys env b key,
       model = config_model b key,
       temperature = eff_temp env b key,
       maxTokens = eff_maxT env b key,
       maxCompletionTokens = JUndefined,
       history = pickHist (body_histories b) (body_history b) (body_modelId b) key,
       useModelConfig = (key = ''openai'' \<and> body_useModelConfig b = JBool True) \<rparr>"









definition calls_of :: "ask_env \<Rightarrow> ask_body \<Rightarrow> string \<Rightarrow> provider_outcome option \<times> nat \<Rightarrow> (string \<times> ask_args) list" where
  "calls_of env b key part = replicate (snd part) (key, provider_args env b key)"





text \<open>The line of an attachment up to the truncation note: number, name, type and size.\<close>

definition attachment_header :: "(number \<Rightarrow> string) \<Rightarrow> nat \<Rightarrow> attachment \<Rightarrow> string" where
  "attachment_header numberToString i a =
     ''\<newline>['' @ numberToString (Fin (of_nat (i + 1))) @ ''] ''
     @ or_default (att_name a) (''file_'' @ numberToString (Fin (of_nat (i + 1))))
     @ '' ('' @ or_default (att_type a) ''text/plain'' @ '', ''
     @ numberToString (size_or_zero (att_size a)) @ '' bytes)''"

section \<open>Values used in the examples\<close>

text \<open>
  A rendering of numbers for the examples: a natural number in decimal, as the runtime
  prints the natural numbers below \<open>10^21\<close>; the examples print no other number.
\<close>

definition decimal :: "number \<Rightarrow> string" where
  "decimal n =
     (case n of
        Fin r \<Rightarrow> if 0 \<le> r \<and> of_int \<lfloor>r\<rfloor> = r then show_nat (nat \<lfloor>r\<rfloor>) else ''?''
      | _ \<Rightarrow> ''?'')"

definition turnA :: jsval where
  "turnA = JObj [(''role'', JStr ''user''), (''content'', JStr ''a'')]"

definition turnB :: jsval where
  "turnB = JObj [(''role'', JStr ''assistant''), (''content'', JStr ''b'')]"

definition turnS :: jsval where
  "turnS = JObj [(''role'', JStr ''system''), (''content'', JStr ''be brief'')]"

definition example_history :: jsval where
  "example_history =
     JArr [turnA, JObj [(''role'', JStr ''user''), (''content'', JStr [])],
           JObj [(''role'', JStr ''assistant''), (''content'', JNum 3)], turnS, turnB]"

definition example_args :: ask_args where
  "example_args =
     \<lparr> prompt = ''hi'', system = Some ''sys'', model = ''gpt-4o'', temperature = JNum (2 / 10),
       maxTokens = JNum 1024, maxCompletionTokens = JUndefined, history = example_history,
       useModelConfig = False \<rparr>"

definition example_config :: model_config where
  "example_config =
     \<lparr> cfg_system = Some ''You are a helpful assistant. Be concise and direct.'',
       cfg_temperature = JNum (2 / 10), cfg_maxTokens = JNum 1024 \<rparr>"

definition research_args :: ask_args where
  "research_args = example_args\<lparr>model := ''o4-mini-deep-research-2025-06-26''\<rparr>"



definition example_result :: responses_result where
  "example_result =
     ResponsesResult None
       (Some [OutputItem (Some ''a'') None, OutputItem None (Some [Some ''b'', None, Some ''c'']),
              OutputItem None None])"

definition flaky :: "nat \<Rightarrow> string operation" where
  "flaky i = (if i < 2 then TimerFirst None else SettlesFirst (Fulfils ''hello''))"

definition failing :: "nat \<Rightarrow> string operation" where
  "failing i = (if i = 2 then TimerFirst None else SettlesFirst (Rejects (Error ''rejected'')))"










section \<open>Properties of the History Resolver\<close>

lemma isArray_elems: "isArray v \<Longrightarrow> JArr (elems v) = v"
  by (cases v) (simp_all add: elems_def)

lemma combined_eq: "combined h = elems (get h ''model1'') @ elems (get h ''model2'') @ elems (get h ''model3'')"
  unfolding combined_def
  by (cases "get h ''model1''"; cases "get h ''model2''"; cases "get h ''model3''") (simp_all add: elems_def)

lemma isArray_coalesce: "isArray (coalesce h (JArr [])) = (isArray h \<or> nullish h)"
  by (cases h) (simp_all add: coalesce_def)

text \<open>
  C3, as the code has it. The resolver applies the precedence (1) the provider's
  entry of the bag when it is a sequence, whatever the model identifier is; (2) else the
  entry under the model identifier, when that is a string and the entry a sequence;
  (3) else, when one of \<open>model1\<close>, \<open>model2\<close>, \<open>model3\<close> holds a sequence, the
  concatenation of those that do, in this order; (4) else the legacy history as it was
  sent, or the empty sequence when it is null or undefined. The result is a sequence in
  the first three cases, and in the fourth when the legacy history is a sequence or absent;
  it is never null or undefined.
\<close>

theorem pickHist_precedence:
  "(isArray (get histories providerKey) \<longrightarrow>
      pickHist histories legacy modelId providerKey = get histories providerKey)
   \<and> (\<not> isArray (get histories providerKey) \<and> modelId = JStr m \<and> isArray (get histories m) \<longrightarrow>
      pickHist histories legacy modelId providerKey = get histories m)
   \<and> (\<not> isArray (get histories providerKey) \<and> \<not> hasModelHist histories modelId
       \<and> (isArray (get histories ''model1'') \<or> isArray (get histories ''model2'')
            \<or> isArray (get histories ''model3'')) \<longrightarrow>
      pickHist histories legacy modelId providerKey =
        JArr (elems (get histories ''model1'') @ elems (get histories ''model2'')
              @ elems (get histories ''model3'')))
   \<and> (\<not> isArray (get histories providerKey) \<and> \<not> hasModelHist histories modelId
       \<and> \<not> isArray (get histories ''model1'') \<and> \<not> isArray (get histories ''model2'')
       \<and> \<not> isArray (get histories ''model3'') \<longrightarrow>
      pickHist histories legacy modelId providerKey =
        (if nullish legacy then JArr [] else legacy))
   \<and> (isArray legacy \<or> nullish legacy \<longrightarrow>
      isArray (pickHist histories legacy modelId providerKey))
   \<and> \<not> nullish (pickHist histories legacy modelId providerKey)"
proof -
  have n: "isArray v \<Longrightarrow> \<not> nullish v" for v by (cases v) simp_all
  have c: "\<not> nullish (coalesce legacy (JArr []))" by (simp add: coalesce_def)
  have "\<not> nullish (pickHist histories legacy modelId providerKey)"
    by (auto simp: pickHist_def hasModelHist_def c n split: jsval.splits)
  then show ?thesis
    by (auto simp: pickHist_def hasModelHist_def combined_eq coalesce_def isArray_coalesce
        split: jsval.splits)
qed

theorem pickHist_precedence_witness:
  "pickHist (JObj [(''openai'', JArr [turnA])]) JUndefined (JStr ''model2'') ''openai'' = JArr [turnA]
   \<and> pickHist (JObj [(''model2'', JArr [turnB])]) JUndefined (JStr ''model2'') ''openai'' = JArr [turnB]
   \<and> pickHist (JObj [(''model1'', JArr [turnA]), (''model3'', JArr [turnB])]) JUndefined JUndefined ''openai''
       = JArr [turnA, turnB]
   \<and> pickHist (JObj []) (JArr [turnB]) JUndefined ''openai'' = JArr [turnB]
   \<and> isArray (pickHist JUndefined JNull JUndefined ''openai'')
   \<and> pickHist (JArr [JArr [turnA]]) (JArr [turnB]) (JStr ''__proto__'') ''openai'' = JArr []
   \<and> pickHist (JArr [JArr [turnA]]) (JArr [turnB]) (JStr ''0'') ''openai'' = JArr [turnA]"
  using pickHist_precedence [of "JArr [JArr [turnA]]" "''openai''" "JArr [turnB]" "JStr ''__proto__''" "''__proto__''"]
    pickHist_precedence [of "JArr [JArr [turnA]]" "''openai''" "JArr [turnB]" "JStr ''0''" "''0''"]
    pickHist_precedence [of "JObj [(''openai'', JArr [turnA])]" "''openai''" JUndefined "JStr ''model2''" "''model2''"]
    pickHist_precedence [of "JObj [(''model2'', JArr [turnB])]" "''openai''" JUndefined "JStr ''model2''" "''model2''"]
    pickHist_precedence [of "JObj [(''model1'', JArr [turnA]), (''model3'', JArr [turnB])]" "''openai''" JUndefined JUndefined "''''"]
    pickHist_precedence [of "JObj []" "''openai''" "JArr [turnB]" JUndefined "''''"]
    pickHist_precedence [of JUndefined "''openai''" JNull JUndefined "''''"]
  by (simp add: hasModelHist_def elems_def index_of_key_def show_nat.simps digit_def)

text \<open>
  C3 as stated claims a sequence for every legacy history. A legacy history that is a
  string is returned as it is: the last step tests for null and undefined only.
\<close>

theorem pickHist_not_sequence: "\<not> isArray (pickHist JUndefined (JStr ''earlier turns'') JUndefined ''openai'')"
  by (simp add: pickHist_def coalesce_def hasModelHist_def)


section \<open>Properties of the message lists\<close>

lemma in_butlast_or_last: "xs \<noteq> [] \<Longrightarrow> x \<in> set xs \<Longrightarrow> x \<in> set (butlast xs) \<or> x = last xs"
  by (induction xs) (auto split: if_splits)

lemma get_chat_message [simp]:
  "get (chat_message r c) ''content'' = JStr c" "get (chat_message r c) ''role'' = JStr r"
  by (simp_all add: chat_message_def)

lemma gemini_content_simps [simp]:
  "gemini_text (gemini_content r t) = JStr t" "get (gemini_content r t) ''role'' = JStr r"
  by (simp_all add: gemini_content_def gemini_text_def)

lemma turn_content_nonempty: "(turn_content m \<noteq> []) = nonempty_text (get m ''content'')"
  by (simp add: turn_content_def nonempty_text_def split: jsval.splits)

lemma JStr_turn_content: "nonempty_text (get m ''content'') \<Longrightarrow> JStr (turn_content m) = get m ''content''"
  by (simp add: turn_content_def nonempty_text_def split: jsval.splits)

lemma history_turns_filter:
  "history_turns h = filter (\<lambda>m. nonempty_text (get m ''content'')) (elems h)"
  by (cases h) (simp_all add: history_turns_def elems_def turn_content_nonempty)

lemma kept_contents_eq: "map (\<lambda>m. JStr (turn_content m)) (history_turns h) = kept_contents h"
  by (simp add: history_turns_filter kept_contents_def JStr_turn_content cong: map_cong)

lemma history_turns_nonempty: "m \<in> set (history_turns h) \<Longrightarrow> turn_content m \<noteq> []"
  by (simp add: history_turns_filter turn_content_nonempty)

lemma withModelConfig_keeps [simp]:
  "prompt (withModelConfig cfg a) = prompt a"
  "history (withModelConfig cfg a) = history a"
  "model (withModelConfig cfg a) = model a"
  by (simp_all add: withModelConfig_def)

lemma claude_messages_props:
  "last (claude_messages a) = chat_message ''user'' (prompt a)"
  "map (\<lambda>x. get x ''content'') (butlast (claude_messages a)) = kept_contents (history a)"
  "\<forall>x \<in> set (butlast (claude_messages a)). nonempty_text (get x ''content'')"
  by (auto simp: claude_messages_def butlast_append o_def kept_contents_eq nonempty_text_def
      dest: history_turns_nonempty)

lemma gemini_contents_props:
  "last (gemini_contents a) = gemini_content ''user'' (prompt a)"
  "map gemini_text (butlast (gemini_contents a)) = kept_contents (history a)"
  "\<forall>x \<in> set (butlast (gemini_contents a)). nonempty_text (gemini_text x)"
  by (auto simp: gemini_contents_def butlast_append o_def kept_contents_eq nonempty_text_def
      dest: history_turns_nonempty)

lemma openai_messages_props:
  "last (openai_messages a) = chat_message ''user'' (prompt a)"
  "map (\<lambda>x. get x ''content'') (drop (if configured (system a) then 1 else 0) (butlast (openai_messages a)))
     = kept_contents (history a)"
  "\<forall>x \<in> set (butlast (openai_messages a)). nonempty_text (get x ''content'')"
  by (auto simp: openai_messages_def butlast_append o_def kept_contents_eq nonempty_text_def configured_def
      dest: history_turns_nonempty split: option.splits)

text \<open>
  C9. Whatever the transcript, each of the three adapters sends, before the final
  element, exactly the turns whose content is a non-empty string (the chat-completion
  adapter after its optional system message); none of these messages is empty; the final
  element is the user prompt. With the non-empty prompt that the request invariant
  gives, no message of the list is empty.
\<close>

theorem empty_turns_dropped:
  "(askOpenAI_request key cfg a = Inr (ChatCompletionsCreate p) \<longrightarrow>
      (\<exists>msgs. get p ''messages'' = JArr msgs
         \<and> last msgs = chat_message ''user'' (prompt a)
         \<and> map (\<lambda>x. get x ''content'')
               (drop (if configured (system (withModelConfig cfg a)) then 1 else 0) (butlast msgs))
             = kept_contents (history a)
         \<and> (\<forall>x \<in> set (butlast msgs). nonempty_text (get x ''content''))
         \<and> (prompt a \<noteq> [] \<longrightarrow> (\<forall>x \<in> set msgs. nonempty_text (get x ''content'')))))
   \<and> (askClaude_request key' a = Inr q \<longrightarrow>
      (\<exists>msgs. get q ''messages'' = JArr msgs
         \<and> last msgs = chat_message ''user'' (prompt a)
         \<and> map (\<lambda>x. get x ''content'') (butlast msgs) = kept_contents (history a)
         \<and> (\<forall>x \<in> set (butlast msgs). nonempty_text (get x ''content''))
         \<and> (prompt a \<noteq> [] \<longrightarrow> (\<forall>x \<in> set msgs. nonempty_text (get x ''content'')))))
   \<and> (askGemini_request key1 key2 a = Inr (gm, rq) \<longrightarrow>
      (\<exists>cs. get rq ''contents'' = JArr cs
         \<and> last cs = gemini_content ''user'' (prompt a)
         \<and> map gemini_text (butlast cs) = kept_contents (history a)
         \<and> (\<forall>x \<in> set (butlast cs). nonempty_text (gemini_text x))
         \<and> (prompt a \<noteq> [] \<longrightarrow> (\<forall>x \<in> set cs. nonempty_text (gemini_text x)))))"
proof (intro conjI impI)
  assume h: "askOpenAI_request key cfg a = Inr (ChatCompletionsCreate p)"
  let ?e = "withModelConfig cfg a"
  from h have p: "p = chat_payload ?e"
    by (auto simp: askOpenAI_request_def Let_def split: if_splits)
  have ne: "openai_messages ?e \<noteq> []" by (simp add: openai_messages_def)
  have all: "prompt a \<noteq> [] \<longrightarrow> (\<forall>x \<in> set (openai_messages ?e). nonempty_text (get x ''content''))"
  proof (intro impI ballI)
    fix x assume pr: "prompt a \<noteq> []" and x: "x \<in> set (openai_messages ?e)"
    from ne x have "x \<in> set (butlast (openai_messages ?e)) \<or> x = last (openai_messages ?e)"
      by (rule in_butlast_or_last)
    with pr openai_messages_props(1,3)[of ?e] show "nonempty_text (get x ''content'')"
      by (auto simp: nonempty_text_def)
  qed
  show "\<exists>msgs. get p ''messages'' = JArr msgs
         \<and> last msgs = chat_message ''user'' (prompt a)
         \<and> map (\<lambda>x. get x ''content'')
               (drop (if configured (system (withModelConfig cfg a)) then 1 else 0) (butlast msgs))
             = kept_contents (history a)
         \<and> (\<forall>x \<in> set (butlast msgs). nonempty_text (get x ''content''))
         \<and> (prompt a \<noteq> [] \<longrightarrow> (\<forall>x \<in> set msgs. nonempty_text (get x ''content'')))"
    using openai_messages_props[of ?e] all
    by (intro exI[of _ "openai_messages ?e"]) (simp add: p chat_payload_def)
next
  assume h: "askClaude_request key' a = Inr q"
  then have q: "get q ''messages'' = JArr (claude_messages a)"
    by (auto simp: askClaude_request_def claude_payload_def split: if_splits)
  have ne: "claude_messages a \<noteq> []" by (simp add: claude_messages_def)
  have all: "prompt a \<noteq> [] \<longrightarrow> (\<forall>x \<in> set (claude_messages a). nonempty_text (get x ''content''))"
  proof (intro impI ballI)
    fix x assume pr: "prompt a \<noteq> []" and x: "x \<in> set (claude_messages a)"
    from ne x have "x \<in> set (butlast (claude_messages a)) \<or> x = last (claude_messages a)"
      by (rule in_butlast_or_last)
    with pr claude_messages_props(1,3)[of a] show "nonempty_text (get x ''content'')"
      by (auto simp: nonempty_text_def)
  qed
  show "\<exists>msgs. get q ''messages'' = JArr msgs
         \<and> last msgs = chat_message ''user'' (prompt a)
         \<and> map (\<lambda>x. get x ''content'') (butlast msgs) = kept_contents (history a)
         \<and> (\<forall>x \<in> set (butlast msgs). nonempty_text (get x ''content''))
         \<and> (prompt a \<noteq> [] \<longrightarrow> (\<forall>x \<in> set msgs. nonempty_text (get x ''content'')))"
    using claude_messages_props[of a] all q
    by (intro exI[of _ "claude_messages a"]) simp
next
  assume h: "askGemini_request key1 key2 a = Inr (gm, rq)"
  then have q: "get rq ''contents'' = JArr (gemini_contents a)"
    by (auto simp: askGemini_request_def gemini_request_def split: if_splits)
  have ne: "gemini_contents a \<noteq> []" by (simp add: gemini_contents_def)
  have all: "prompt a \<noteq> [] \<longrightarrow> (\<forall>x \<in> set (gemini_contents a). nonempty_text (gemini_text x))"
  proof (intro impI ballI)
    fix x assume pr: "prompt a \<noteq> []" and x: "x \<in> set (gemini_contents a)"
    from ne x have "x \<in> set (butlast (gemini_contents a)) \<or> x = last (gemini_contents a)"
      by (rule in_butlast_or_last)
    with pr gemini_contents_props(1,3)[of a] show "nonempty_text (gemini_text x)"
      by (auto simp: nonempty_text_def)
  qed
  show "\<exists>cs. get rq ''contents'' = JArr cs
         \<and> last cs = gemini_content ''user'' (prompt a)
         \<and> map gemini_text (butlast cs) = kept_contents (history a)
         \<and> (\<forall>x \<in> set (butlast cs). nonempty_text (gemini_text x))
         \<and> (prompt a \<noteq> [] \<longrightarrow> (\<forall>x \<in> set cs. nonempty_text (gemini_text x)))"
    using gemini_contents_props[of a] all q
    by (intro exI[of _ "gemini_contents a"]) simp
qed

theorem empty_turns_dropped_witness:
  "askOpenAI_request (Some ''sk'') example_config example_args
      = Inr (ChatCompletionsCreate (chat_payload example_args))
   \<and> askClaude_request (Some ''sk'') example_args = Inr (claude_payload example_args)
   \<and> askGemini_request None (Some ''sk'') example_args
      = Inr (gemini_model_params example_args, gemini_request example_args)
   \<and> prompt example_args \<noteq> []
   \<and> kept_contents (history example_args) = [JStr ''a'', JStr ''be brief'', JStr ''b'']
   \<and> (\<exists>msgs. get (chat_payload example_args) ''messages'' = JArr msgs
         \<and> map (\<lambda>x. get x ''content'') (drop 1 (butlast msgs)) = [JStr ''a'', JStr ''be brief'', JStr ''b'']
         \<and> list_all (\<lambda>x. nonempty_text (get x ''content'')) msgs)
   \<and> (\<exists>msgs. get (claude_payload example_args) ''messages'' = JArr msgs
         \<and> map (\<lambda>x. get x ''content'') (butlast msgs) = [JStr ''a'', JStr ''be brief'', JStr ''b'']
         \<and> list_all (\<lambda>x. nonempty_text (get x ''content'')) msgs)
   \<and> (\<exists>cs. get (gemini_request example_args) ''contents'' = JArr cs
         \<and> map gemini_text (butlast cs) = [JStr ''a'', JStr ''be brief'', JStr ''b'']
         \<and> list_all (\<lambda>x. nonempty_text (gemini_text x)) cs)"
proof -
  have m: "\<not> usesResponsesApi ''gpt-4o''"
    by (simp add: usesResponsesApi_def lower_char_def)
  have w: "withModelConfig example_config example_args = example_args"
    by (simp add: withModelConfig_def example_args_def)
  have h1: "askOpenAI_request (Some ''sk'') example_config example_args
      = Inr (ChatCompletionsCreate (chat_payload example_args))"
    using m by (simp add: askOpenAI_request_def configured_def w) (simp add: example_args_def)
  have h2: "askClaude_request (Some ''sk'') example_args = Inr (claude_payload example_args)"
    by (simp add: askClaude_request_def configured_def)
  have h3: "askGemini_request None (Some ''sk'') example_args
      = Inr (gemini_model_params example_args, gemini_request example_args)"
    by (simp add: askGemini_request_def configured_def)
  have h4: "prompt example_args \<noteq> []" by (simp add: example_args_def)
  have k: "kept_contents (history example_args) = [JStr ''a'', JStr ''be brief'', JStr ''b'']"
    by (simp add: kept_contents_def example_args_def example_history_def elems_def nonempty_text_def
        turnA_def turnB_def turnS_def)
  have c: "configured (system example_args)" by (simp add: example_args_def configured_def)
  show ?thesis
    using empty_turns_dropped [of "Some ''sk''" example_config example_args "chat_payload example_args"
        "Some ''sk''" "claude_payload example_args" None "Some ''sk''"
        "gemini_model_params example_args" "gemini_request example_args"]
      h1 h2 h3 h4 k c w
    by (auto simp: list_all_iff)
qed

text \<open>
  C10. A turn that is not an assistant turn is labelled \<open>user\<close> by the message-style
  and by the generative-content-style adapter; a turn of role \<open>system\<close> with a
  non-empty content is sent as a \<open>user\<close> message by both and as a \<open>system\<close> message
  by the chat-completion-style adapter. The roles the first two ever send are
  \<open>assistant\<close> (or \<open>model\<close>) and \<open>user\<close>.
\<close>

theorem system_turns_relabelled:
  "(get m ''role'' \<noteq> JStr ''assistant'' \<longrightarrow> claude_role m = ''user'' \<and> gemini_role m = ''user'')
   \<and> (get m ''role'' = JStr ''system'' \<longrightarrow> openai_role m = ''system'')
   \<and> (history a = JArr hs \<and> m \<in> set hs \<and> get m ''role'' = JStr ''system''
        \<and> get m ''content'' = JStr c \<and> c \<noteq> [] \<longrightarrow>
        chat_message ''user'' c \<in> set (claude_messages a)
        \<and> gemini_content ''user'' c \<in> set (gemini_contents a)
        \<and> chat_message ''system'' c \<in> set (openai_messages a))
   \<and> (\<forall>x \<in> set (claude_messages a).
         get x ''role'' = JStr ''assistant'' \<or> get x ''role'' = JStr ''user'')
   \<and> (\<forall>x \<in> set (gemini_contents a).
         get x ''role'' = JStr ''model'' \<or> get x ''role'' = JStr ''user'')"
proof (intro conjI impI)
  assume h: "history a = JArr hs \<and> m \<in> set hs \<and> get m ''role'' = JStr ''system''
        \<and> get m ''content'' = JStr c \<and> c \<noteq> []"
  then have t: "m \<in> set (history_turns (history a))" and tc: "turn_content m = c"
    by (simp_all add: history_turns_def elems_def turn_content_def)
  from h have r: "claude_role m = ''user''" "gemini_role m = ''user''" "openai_role m = ''system''"
    by (simp_all add: claude_role_def gemini_role_def openai_role_def)
  from t have "chat_message (claude_role m) (turn_content m) \<in> set (claude_messages a)"
    unfolding claude_messages_def by (simp add: image_iff) blast
  then show "chat_message ''user'' c \<in> set (claude_messages a)" by (simp add: r tc)
  from t have "gemini_content (gemini_role m) (turn_content m) \<in> set (gemini_contents a)"
    unfolding gemini_contents_def by (simp add: image_iff) blast
  then show "gemini_content ''user'' c \<in> set (gemini_contents a)" by (simp add: r tc)
  from t have "chat_message (openai_role m) (turn_content m) \<in> set (openai_messages a)"
    unfolding openai_messages_def by (simp add: image_iff) blast
  then show "chat_message ''system'' c \<in> set (openai_messages a)" by (simp add: r tc)
qed (auto simp: claude_role_def gemini_role_def openai_role_def claude_messages_def gemini_contents_def)

theorem system_turns_relabelled_witness:
  "history example_args = example_history \<and> turnS \<in> set (elems example_history)
   \<and> get turnS ''role'' = JStr ''system'' \<and> get turnS ''content'' = JStr ''be brief''
   \<and> claude_role turnS = ''user'' \<and> gemini_role turnS = ''user'' \<and> openai_role turnS = ''system''
   \<and> chat_message ''user'' ''be brief'' \<in> set (claude_messages example_args)
   \<and> gemini_content ''user'' ''be brief'' \<in> set (gemini_contents example_args)
   \<and> chat_message ''system'' ''be brief'' \<in> set (openai_messages example_args)
   \<and> list_all (\<lambda>x. get x ''role'' = JStr ''assistant'' \<or> get x ''role'' = JStr ''user'')
         (claude_messages example_args)
   \<and> list_all (\<lambda>x. get x ''role'' = JStr ''model'' \<or> get x ''role'' = JStr ''user'')
         (gemini_contents example_args)"
proof -
  have h: "history example_args = JArr (elems example_history)" "turnS \<in> set (elems example_history)"
    "get turnS ''role'' = JStr ''system''" "get turnS ''content'' = JStr ''be brief''"
    "''be brief'' \<noteq> []" "get turnS ''role'' \<noteq> JStr ''assistant''"
    by (simp_all add: example_args_def example_history_def elems_def turnS_def)
  have e: "JArr (elems example_history) = example_history"
    by (simp add: example_history_def elems_def)
  show ?thesis
    using system_turns_relabelled [of turnS example_args "elems example_history" "''be brief''"] h
    by (simp add: e list_all_iff)
qed


section \<open>Properties of the chat-completion-style adapter\<close>




lemma family_examples:
  "\<not> usesResponsesApi ''gpt-4o''" "\<not> isGpt5 ''gpt-4o''"
  "\<not> usesResponsesApi openaiModel" "isGpt5 openaiModel"
  "usesResponsesApi ''o4-mini-deep-research-2025-06-26''"
  "isGpt5 ''o4-mini-deep-research-2025-06-26''"
  by (simp_all add: usesResponsesApi_def isGpt5_def lower_char_def openaiModel_def)





text \<open>
  The handler of \<^verbatim>\<open>/api/stream\<close> tests the pattern on the model of the request, and
  on the empty string when the request names none, while the payload then carries the
  default model.
\<close>

lemma stream_without_model:
  "get (stream_payload None (JNum 1) (JNum 64) JUndefined msgs) ''model'' = JStr ''gpt-5-mini-2025-08-07''
   \<and> get (stream_payload None (JNum 1) (JNum 64) JUndefined msgs) ''temperature'' = JNum 1
   \<and> get (stream_payload None (JNum 1) (JNum 64) JUndefined msgs) ''max_tokens'' = JNum 64"
  by (simp add: stream_payload_def configured_def openaiModel_def sampling_fields_def isGpt5_def
      coalesce_def)

section \<open>Properties of the long-running mode\<close>

lemma join_snoc: "join sep (xs @ [y]) = concat (map (\<lambda>x. x @ sep) xs) @ y"
proof (induction xs)
  case Nil
  show ?case by simp
next
  case (Cons x xs)
  then show ?case by (cases xs) simp_all
qed

lemma join_research_parts: "join ''\<newline>\<newline>'' (research_parts a) = flattened_input a"
proof -
  have "research_parts a =
      ([''System: '' @ DEEP_RESEARCH_PLANNER_INSTRUCTIONS]
       @ (if configured (system a) then [''System: '' @ the (system a)] else [])
       @ map (\<lambda>m. research_role m @ '': '' @ turn_content m) (history_turns (history a)))
      @ [''User: '' @ prompt a]"
    by (simp add: research_parts_def)
  then show ?thesis
    by (simp only: join_snoc) (simp add: flattened_input_def o_def)
qed

lemma research_payload_ignores_sampling:
  "research_payload (withModelConfig cfg (a\<lparr>temperature := t, maxTokens := mt, maxCompletionTokens := mct\<rparr>))
     = research_payload (withModelConfig cfg a)"
  by (simp add: research_payload_def research_parts_def withModelConfig_def)

text \<open>
  C8. For a model identifier that matches the deep-research pattern the adapter calls
  the responses endpoint with the model, the flattened input and the fixed declaration
  of the two tools; the call does not depend on the temperature and token fields of the
  request; the text returned is the convenience field when it is a non-empty string and
  otherwise the fragments of the output list, concatenated in order.
\<close>

theorem deep_research_call_shape:
  "(configured key \<and> usesResponsesApi (model a) \<longrightarrow>
      askOpenAI_request key cfg a =
        Inr (ResponsesCreate
          (JObj [(''model'', JStr (model a)),
                 (''input'', JStr (flattened_input (withModelConfig cfg a))),
                 (''tools'',
                  JArr [JObj [(''type'', JStr ''web_search_preview'')],
                        JObj [(''type'', JStr ''code_interpreter''),
                              (''container'', JObj [(''type'', JStr ''auto'')])]])])))
   \<and> (usesResponsesApi (model a) \<longrightarrow>
      askOpenAI_request key cfg (a\<lparr>temperature := t, maxTokens := mt, maxCompletionTokens := mct\<rparr>)
        = askOpenAI_request key cfg a)
   \<and> (output_text r = Some ftext \<and> ftext \<noteq> [] \<longrightarrow> research_text r = ftext)
   \<and> (output_text r = None \<or> output_text r = Some [] \<longrightarrow>
      research_text r =
        concat (map item_fragment (case output_list r of Some out \<Rightarrow> out | None \<Rightarrow> [])))
   \<and> item_fragment (OutputItem (Some ftext) cont) = ftext
   \<and> item_fragment (OutputItem None (Some cs)) =
        concat (map (\<lambda>c. case c of Some x \<Rightarrow> x | None \<Rightarrow> []) cs)
   \<and> item_fragment (OutputItem None None) = []"
proof (intro conjI impI)
  assume h: "configured key \<and> usesResponsesApi (model a)"
  then show "askOpenAI_request key cfg a =
        Inr (ResponsesCreate
          (JObj [(''model'', JStr (model a)),
                 (''input'', JStr (flattened_input (withModelConfig cfg a))),
                 (''tools'',
                  JArr [JObj [(''type'', JStr ''web_search_preview'')],
                        JObj [(''type'', JStr ''code_interpreter''),
                              (''container'', JObj [(''type'', JStr ''auto'')])]])]))"
    by (simp add: askOpenAI_request_def Let_def research_payload_def join_research_parts
        research_tools_def withModelConfig_def)
next
  assume h: "usesResponsesApi (model a)"
  have m: "model (withModelConfig cfg (a\<lparr>temperature := t, maxTokens := mt, maxCompletionTokens := mct\<rparr>))
      = model a" "model (withModelConfig cfg a) = model a"
    by (simp_all add: withModelConfig_def)
  show "askOpenAI_request key cfg (a\<lparr>temperature := t, maxTokens := mt, maxCompletionTokens := mct\<rparr>)
        = askOpenAI_request key cfg a"
    using h by (simp add: askOpenAI_request_def Let_def m research_payload_ignores_sampling)
next
  assume "output_text r = Some ftext \<and> ftext \<noteq> []"
  then show "research_text r = ftext" by (simp add: research_text_def)
next
  assume "output_text r = None \<or> output_text r = Some []"
  then show "research_text r =
        concat (map item_fragment (case output_list r of Some out \<Rightarrow> out | None \<Rightarrow> []))"
    by (auto simp: research_text_def split: option.splits)
qed (simp_all add: item_fragment_def)

theorem deep_research_call_shape_witness:
  "configured (Some ''sk'') \<and> usesResponsesApi (model research_args)
   \<and> get (payload_of (projr (askOpenAI_request (Some ''sk'') example_config research_args))) ''input''
      = JStr (''System: '' @ DEEP_RESEARCH_PLANNER_INSTRUCTIONS
              @ ''\<newline>\<newline>System: sys\<newline>\<newline>User: a\<newline>\<newline>System: be brief\<newline>\<newline>Assistant: b\<newline>\<newline>User: hi'')
   \<and> askOpenAI_request (Some ''sk'') example_config
        (research_args\<lparr>temperature := JNum 1, maxTokens := JNum 5, maxCompletionTokens := JNum 7\<rparr>)
      = askOpenAI_request (Some ''sk'') example_config research_args
   \<and> research_text (ResponsesResult (Some ''final'') (output_list example_result)) = ''final''
   \<and> research_text example_result = ''abc''"
proof -
  have c: "configured (Some ''sk'')" by (simp add: configured_def)
  have m: "model research_args = ''o4-mini-deep-research-2025-06-26''"
    by (simp add: research_args_def)
  have w: "withModelConfig example_config research_args = research_args"
    by (simp add: withModelConfig_def research_args_def example_args_def)
  have t: "history_turns (history research_args) = [turnA, turnS, turnB]"
    by (simp add: research_args_def example_args_def history_turns_def example_history_def elems_def
        turn_content_def turnA_def turnB_def turnS_def)
  have f: "flattened_input research_args
      = ''System: '' @ DEEP_RESEARCH_PLANNER_INSTRUCTIONS
              @ ''\<newline>\<newline>System: sys\<newline>\<newline>User: a\<newline>\<newline>System: be brief\<newline>\<newline>Assistant: b\<newline>\<newline>User: hi''"
    unfolding flattened_input_def t
    by (simp add: research_args_def example_args_def configured_def research_role_def turn_content_def
        turnA_def turnB_def turnS_def)
  have o: "output_text example_result = None"
    "output_text (ResponsesResult (Some ''final'') (output_list example_result)) = Some ''final''"
    "output_list example_result = Some [OutputItem (Some ''a'') None,
        OutputItem None (Some [Some ''b'', None, Some ''c'']), OutputItem None None]"
    by (simp_all add: example_result_def)
  note d1 = deep_research_call_shape [where key = "Some ''sk''" and a = research_args
        and cfg = example_config and t = "JNum 1" and mt = "JNum 5" and mct = "JNum 7"
        and r = "ResponsesResult (Some ''final'') (output_list example_result)" and ftext = "''final''"
        and cont = None and cs = "[]"]
  note d2 = deep_research_call_shape [where key = "Some ''sk''" and a = research_args
        and cfg = example_config and t = "JNum 1" and mt = "JNum 5" and mct = "JNum 7"
        and r = example_result and ftext = "''a''" and cont = None
        and cs = "[Some ''b'', None, Some ''c'']"]
  have u: "usesResponsesApi (model research_args)" using family_examples(5) by (simp add: m)
  from d1 c u have p1: "get (payload_of (projr (askOpenAI_request (Some ''sk'') example_config research_args))) ''input''
      = JStr (flattened_input research_args)"
    by (simp add: w)
  from d1 u have p2: "askOpenAI_request (Some ''sk'') example_config
        (research_args\<lparr>temperature := JNum 1, maxTokens := JNum 5, maxCompletionTokens := JNum 7\<rparr>)
      = askOpenAI_request (Some ''sk'') example_config research_args"
    by blast
  from d1 o have p3: "research_text (ResponsesResult (Some ''final'') (output_list example_result)) = ''final''"
    by simp
  from d2 o have p4: "research_text example_result = ''abc''"
    by simp
  show ?thesis using c u p1 p2 p3 p4 by (simp only: f simp_thms)
qed


section \<open>Properties of the Timeout Wrapper\<close>

lemma on_event_resolved:
  "settled w = Resolved r \<Longrightarrow>
     settled (on_event numberToString T label w e) = Resolved r
     \<and> settlements (on_event numberToString T label w e) = settlements w"
  by (cases e) (simp_all add: resolve_def clearTimeout_def)

lemma run_wrapper_resolved:
  "settled w = Resolved r \<Longrightarrow>
     settled (run_wrapper numberToString T label w es) = Resolved r
     \<and> settlements (run_wrapper numberToString T label w es) = settlements w"
proof (induction es arbitrary: w)
  case Nil
  then show ?case by (simp add: run_wrapper_def)
next
  case (Cons e es)
  from on_event_resolved [OF Cons.prems, of numberToString T label e]
  have "settled (on_event numberToString T label w e) = Resolved r"
    and s: "settlements (on_event numberToString T label w e) = settlements w" by simp_all
  from Cons.IH [OF this(1)] s show ?case by (simp add: run_wrapper_def)
qed

lemma first_event_settles:
  "settled (run_wrapper numberToString T label armed (events p)) = Resolved (deadline_outcome numberToString p T label)
   \<and> settlements (run_wrapper numberToString T label armed (events p)) = 1"
proof (cases p)
  case (SettlesFirst s)
  then show ?thesis
    by (cases s) (simp_all add: run_wrapper_def armed_def resolve_def clearTimeout_def)
next
  case (TimerFirst late)
  show ?thesis
  proof (cases late)
    case None
    with TimerFirst show ?thesis
      by (simp add: run_wrapper_def armed_def resolve_def)
  next
    case (Some s)
    with TimerFirst show ?thesis
      by (cases s) (simp_all add: run_wrapper_def armed_def resolve_def clearTimeout_def)
  qed
qed

lemma withTimeout_resolves: "withTimeout numberToString p T label = Resolved (deadline_outcome numberToString p T label)"
  by (simp add: withTimeout_def first_event_settles)

lemma run_wrapper_append:
  "run_wrapper numberToString T label w (es @ es') = run_wrapper numberToString T label (run_wrapper numberToString T label w es) es'"
  by (simp add: run_wrapper_def)

text \<open>
  C2. Whatever the operation does, the returned promise is resolved, by exactly one
  call of \<^verbatim>\<open>resolve\<close>, with the outcome the specification gives: the operation's own
  outcome when it settles before the timer, and when the timer fires first the failure
  whose message is the label, \<open>timed out after\<close>, the timeout as the runtime prints
  the number, and \<open>ms\<close>. No event
  that follows, the late settlement of the abandoned operation included, changes the
  outcome or settles the promise again. The promise has no rejected state.
\<close>

theorem withTimeout_settles_once:
  "withTimeout numberToString promise T label = Resolved (deadline_outcome numberToString promise T label)
   \<and> settlements (run_wrapper numberToString T label armed (events promise)) = 1
   \<and> (\<forall>late. settled (run_wrapper numberToString T label armed (events promise @ late))
                = Resolved (deadline_outcome numberToString promise T label)
            \<and> settlements (run_wrapper numberToString T label armed (events promise @ late)) = 1)
   \<and> deadline_outcome numberToString (SettlesFirst (Fulfils v)) T label = Ok v
   \<and> deadline_outcome numberToString (SettlesFirst (Rejects e)) T label = Fail e
   \<and> deadline_outcome numberToString (TimerFirst abandoned) T label
        = Fail (Error (label @ '' timed out after '' @ numberToString T @ ''ms''))"
proof -
  have a: "\<forall>late. settled (run_wrapper numberToString T label armed (events promise @ late))
                = Resolved (deadline_outcome numberToString promise T label)
            \<and> settlements (run_wrapper numberToString T label armed (events promise @ late)) = 1"
  proof
    fix late
    from first_event_settles [of numberToString T label promise]
    have s: "settled (run_wrapper numberToString T label armed (events promise))
              = Resolved (deadline_outcome numberToString promise T label)"
      and n: "settlements (run_wrapper numberToString T label armed (events promise)) = 1" by simp_all
    from run_wrapper_resolved [OF s, of numberToString T label late] n
    show "settled (run_wrapper numberToString T label armed (events promise @ late))
                = Resolved (deadline_outcome numberToString promise T label)
            \<and> settlements (run_wrapper numberToString T label armed (events promise @ late)) = 1"
      by (simp add: run_wrapper_append)
  qed
  show ?thesis
    using withTimeout_resolves [of numberToString promise T label] first_event_settles [of numberToString T label promise] a
    by (simp add: timeout_error_def)
qed

section \<open>Properties of the Retry Supervisor\<close>

lemma attempt_step:
  "attempt numberToString label f attempts T n calls =
     (let result = deadline_outcome numberToString (f calls) T label in
      if ok result then Some (result, calls + 1)
      else if attempts \<le> int n + 1 then Some (result, calls + 1)
      else attempt numberToString label f attempts T (n + 1) (calls + 1))"
  by (subst attempt.simps) (simp add: withTimeout_resolves Let_def)

lemma attempt_succeeds:
  "\<forall>i<k. \<not> ok (deadline_outcome numberToString (f (calls + i)) T label) \<Longrightarrow>
   deadline_outcome numberToString (f (calls + k)) T label = Ok v \<Longrightarrow> int (n + k) < attempts \<Longrightarrow>
   attempt numberToString label f attempts T n calls = Some (Ok v, calls + k + 1)"
proof (induction k arbitrary: n calls)
  case 0
  then show ?case by (subst attempt_step) simp
next
  case (Suc k)
  have f0: "\<not> ok (deadline_outcome numberToString (f calls) T label)" using Suc.prems(1) by force
  have "attempt numberToString label f attempts T (n + 1) (calls + 1) = Some (Ok v, (calls + 1) + k + 1)"
  proof (rule Suc.IH)
    show "\<forall>i<k. \<not> ok (deadline_outcome numberToString (f (calls + 1 + i)) T label)"
      using Suc.prems(1) by (metis Suc_less_eq add.assoc plus_1_eq_Suc)
    show "deadline_outcome numberToString (f (calls + 1 + k)) T label = Ok v" using Suc.prems(2) by simp
    show "int (n + 1 + k) < attempts" using Suc.prems(3) by simp
  qed
  moreover have "\<not> attempts \<le> int n + 1" using Suc.prems(3) by simp
  ultimately show ?case using f0 by (subst attempt_step) (simp add: Let_def)
qed

lemma attempt_exhausts:
  "\<forall>i\<le>d. \<not> ok (deadline_outcome numberToString (f (calls + i)) T label) \<Longrightarrow> attempts = int n + int d + 1 \<Longrightarrow>
   attempt numberToString label f attempts T n calls = Some (deadline_outcome numberToString (f (calls + d)) T label, calls + d + 1)"
proof (induction d arbitrary: n calls)
  case 0
  then show ?case by (subst attempt_step) (simp add: Let_def)
next
  case (Suc d)
  have f0: "\<not> ok (deadline_outcome numberToString (f calls) T label)" using Suc.prems(1) by force
  have "attempt numberToString label f attempts T (n + 1) (calls + 1)
      = Some (deadline_outcome numberToString (f (calls + 1 + d)) T label, (calls + 1) + d + 1)"
  proof (rule Suc.IH)
    show "\<forall>i\<le>d. \<not> ok (deadline_outcome numberToString (f (calls + 1 + i)) T label)"
      using Suc.prems(1) by (metis Suc_le_mono add.assoc plus_1_eq_Suc)
    show "attempts = int (n + 1) + int d + 1" using Suc.prems(2) by simp
  qed
  moreover have "\<not> attempts \<le> int n + 1" using Suc.prems(2) by simp
  ultimately show ?case using f0 by (subst attempt_step) (simp add: Let_def)
qed

lemma attempt_returns:
  "\<exists>r c. attempt numberToString label f attempts T n calls = Some (r, c) \<and> calls < c"
proof (induction numberToString label f attempts T n calls rule: attempt.induct)
  case (1 numberToString label f attempts T n calls)
  show ?case
  proof (cases "ok (deadline_outcome numberToString (f calls) T label) \<or> attempts \<le> int n + 1")
    case True
    then show ?thesis by (subst attempt_step) (auto simp: Let_def)
  next
    case False
    with "1.IH" [OF withTimeout_resolves] obtain r c
      where "attempt numberToString label f attempts T (n + 1) (calls + 1) = Some (r, c)" "calls + 1 < c"
      by auto
    with False show ?thesis by (subst attempt_step) (auto simp: Let_def)
  qed
qed

text \<open>
  C1. With a ceiling of at least one attempt: when the first \<open>k\<close> attempts fail and
  attempt \<open>k\<close> (counted from 0, below the ceiling) succeeds, the supervisor returns that
  success after exactly \<open>k + 1\<close> calls of the factory, so a success of attempt numberToString 0 is
  returned at once; when every attempt numberToString below the ceiling fails, it returns the failure of
  the last one after exactly as many calls as the ceiling. It always returns.
\<close>

theorem runWithRetries_attempts:
  assumes "1 \<le> attempts"
  shows "((\<forall>i<k. \<exists>e. withTimeout numberToString (f i) T label = Resolved (Fail e))
           \<and> withTimeout numberToString (f k) T label = Resolved (Ok v) \<and> int k < attempts \<longrightarrow>
          runWithRetries numberToString label f attempts T = Some (Ok v, k + 1))
       \<and> ((\<forall>i. int i < attempts \<longrightarrow> (\<exists>e. withTimeout numberToString (f i) T label = Resolved (Fail e))) \<longrightarrow>
          (\<exists>e. withTimeout numberToString (f (nat attempts - 1)) T label = Resolved (Fail e)
               \<and> runWithRetries numberToString label f attempts T = Some (Fail e, nat attempts)))
       \<and> (\<exists>r c. runWithRetries numberToString label f attempts T = Some (r, c) \<and> 1 \<le> c)"
proof (intro conjI impI)
  assume h: "(\<forall>i<k. \<exists>e. withTimeout numberToString (f i) T label = Resolved (Fail e))
           \<and> withTimeout numberToString (f k) T label = Resolved (Ok v) \<and> int k < attempts"
  have "\<forall>i<k. \<not> ok (deadline_outcome numberToString (f (0 + i)) T label)"
  proof (intro allI impI)
    fix i assume "i < k"
    with h obtain e where "withTimeout numberToString (f i) T label = Resolved (Fail e)" by blast
    then show "\<not> ok (deadline_outcome numberToString (f (0 + i)) T label)" by (simp add: withTimeout_resolves)
  qed
  moreover from h have "deadline_outcome numberToString (f (0 + k)) T label = Ok v"
    by (simp add: withTimeout_resolves)
  moreover from h have "int (0 + k) < attempts" by simp
  ultimately have "attempt numberToString label f attempts T 0 0 = Some (Ok v, 0 + k + 1)"
    by (rule attempt_succeeds)
  then show "runWithRetries numberToString label f attempts T = Some (Ok v, k + 1)"
    by (simp add: runWithRetries_def)
next
  assume h: "\<forall>i. int i < attempts \<longrightarrow> (\<exists>e. withTimeout numberToString (f i) T label = Resolved (Fail e))"
  let ?d = "nat attempts - 1"
  have d: "attempts = int 0 + int ?d + 1" using assms by simp
  have "\<forall>i\<le>?d. \<not> ok (deadline_outcome numberToString (f (0 + i)) T label)"
  proof (intro allI impI)
    fix i assume "i \<le> ?d"
    with assms have "int i < attempts" by linarith
    with h obtain e where "withTimeout numberToString (f i) T label = Resolved (Fail e)" by blast
    then show "\<not> ok (deadline_outcome numberToString (f (0 + i)) T label)" by (simp add: withTimeout_resolves)
  qed
  from attempt_exhausts [OF this d]
  have r: "runWithRetries numberToString label f attempts T = Some (deadline_outcome numberToString (f ?d) T label, nat attempts)"
    using assms by (simp add: runWithRetries_def)
  from assms have "int ?d < attempts" by linarith
  with h obtain e where e: "withTimeout numberToString (f ?d) T label = Resolved (Fail e)" by blast
  then have "deadline_outcome numberToString (f ?d) T label = Fail e" by (simp add: withTimeout_resolves)
  with r e show "\<exists>e. withTimeout numberToString (f (nat attempts - 1)) T label = Resolved (Fail e)
               \<and> runWithRetries numberToString label f attempts T = Some (Fail e, nat attempts)"
    by simp
next
  from attempt_returns [of numberToString label f attempts T 0 0]
  show "\<exists>r c. runWithRetries numberToString label f attempts T = Some (r, c) \<and> 1 \<le> c"
    by (auto simp: runWithRetries_def)
qed

theorem runWithRetries_attempts_witness:
  "(1::int) \<le> 3
   \<and> withTimeout decimal (flaky 0) (Fin 5000) ''OpenAI'' = Resolved (Fail (Error ''OpenAI timed out after 5000ms''))
   \<and> withTimeout decimal (flaky 1) (Fin 5000) ''OpenAI'' = Resolved (Fail (Error ''OpenAI timed out after 5000ms''))
   \<and> withTimeout decimal (flaky 2) (Fin 5000) ''OpenAI'' = Resolved (Ok ''hello'')
   \<and> runWithRetries decimal ''OpenAI'' flaky 3 (Fin 5000) = Some (Ok ''hello'', 3)
   \<and> withTimeout decimal (failing 0) (Fin 5000) ''OpenAI'' = Resolved (Fail (Error ''rejected''))
   \<and> withTimeout decimal (failing 1) (Fin 5000) ''OpenAI'' = Resolved (Fail (Error ''rejected''))
   \<and> withTimeout decimal (failing 2) (Fin 5000) ''OpenAI''
        = Resolved (Fail (Error ''OpenAI timed out after 5000ms''))
   \<and> runWithRetries decimal ''OpenAI'' failing 3 (Fin 5000)
        = Some (Fail (Error ''OpenAI timed out after 5000ms''), 3)"
proof -
  have a: "(1::int) \<le> 3" by simp
  have t: "timeout_error decimal ''OpenAI'' (Fin 5000) = Error ''OpenAI timed out after 5000ms''"
    by (simp add: timeout_error_def decimal_def show_nat.simps digit_def)
  have f: "withTimeout decimal (flaky 0) (Fin 5000) ''OpenAI'' = Resolved (Fail (Error ''OpenAI timed out after 5000ms''))"
    "withTimeout decimal (flaky 1) (Fin 5000) ''OpenAI'' = Resolved (Fail (Error ''OpenAI timed out after 5000ms''))"
    "withTimeout decimal (flaky 2) (Fin 5000) ''OpenAI'' = Resolved (Ok ''hello'')"
    by (simp_all add: withTimeout_resolves flaky_def t)
  have g: "withTimeout decimal (failing 0) (Fin 5000) ''OpenAI'' = Resolved (Fail (Error ''rejected''))"
    "withTimeout decimal (failing 1) (Fin 5000) ''OpenAI'' = Resolved (Fail (Error ''rejected''))"
    "withTimeout decimal (failing 2) (Fin 5000) ''OpenAI''
        = Resolved (Fail (Error ''OpenAI timed out after 5000ms''))"
    by (simp_all add: withTimeout_resolves failing_def t)
  have h1: "\<forall>i<2. \<exists>e. withTimeout decimal (flaky i) (Fin 5000) ''OpenAI'' = Resolved (Fail e)"
    by (simp add: withTimeout_resolves flaky_def)
  have h3: "\<forall>i. int i < 3 \<longrightarrow> (\<exists>e. withTimeout decimal (failing i) (Fin 5000) ''OpenAI'' = Resolved (Fail e))"
    by (simp add: withTimeout_resolves failing_def)
  have l: "withTimeout decimal (failing (nat 3 - 1)) (Fin 5000) ''OpenAI''
      = Resolved (Fail (Error ''OpenAI timed out after 5000ms''))"
    using g(3) by simp
  from runWithRetries_attempts [OF a, of 2 decimal flaky "Fin 5000" "''OpenAI''" "''hello''"] h1 f(3)
  have r1: "runWithRetries decimal ''OpenAI'' flaky 3 (Fin 5000) = Some (Ok ''hello'', 3)" by simp
  from runWithRetries_attempts [OF a, of 2 decimal failing "Fin 5000" "''OpenAI''" "''hello''"] h3 l
  have r2: "runWithRetries decimal ''OpenAI'' failing 3 (Fin 5000)
        = Some (Fail (Error ''OpenAI timed out after 5000ms''), 3)" by auto
  show ?thesis using a f g r1 r2 by blast
qed



section \<open>Properties of the Orchestrator\<close>













lemma calls_of_other: "x \<in> set (calls_of env b key part) \<Longrightarrow> fst x = key"
  by (auto simp: calls_of_def)













section \<open>Properties of the attachment inlining\<close>


lemma attachment_line_whole:
  "att_content a = Some c \<Longrightarrow> length c \<le> 100000 \<Longrightarrow>
     attachment_line numberToString i a = attachment_header numberToString i a @ '':\<newline>'' @ c"
  by (simp add: attachment_line_def attachment_header_def MAX_PER_def Let_def size_or_zero_def)












end
